theory Spec2Isabelle
  imports Main "HOL-Library.AList"
begin

section \<open>Data model (auth_ref.go)\<close>

text \<open>
  The struct \<^verbatim>\<open>Forge\<close> that the interactive form of auth_ref.go fills in. It shares
  field names with \<^verbatim>\<open>Config\<close> below; its fields are written qualified
  (\<open>Forge.SourceType\<close>) throughout.
\<close>

record Forge =
  SourceType :: string
  SourceUsername :: string
  SourceToken :: string
  SourceDomain :: string
  TargetType :: string
  TargetUsername :: string
  TargetToken :: string
  TargetDomain :: string
  MakePrivate :: bool
  EnableMirror :: bool

section \<open>Data model (ref.go)\<close>

text \<open>
  The structs \<^verbatim>\<open>Config\<close> and \<^verbatim>\<open>Repository\<close> of ref.go, field by field. Go strings
  are byte sequences, modelled as \<^typ>\<open>string\<close>. A Go \<^verbatim>\<open>error\<close> is modelled by the
  message it carries.
\<close>

type_synonym error = string

record Config =
  SourceType :: string
  SourceDomain :: string
  SourceUsername :: string
  SourceToken :: string
  TargetType :: string
  TargetDomain :: string
  TargetUsername :: string
  TargetToken :: string
  TargetRepoOwner :: string
  MakePrivate :: bool
  EnableWiki :: bool
  EnableMirror :: bool

record Repository =
  Name :: string
  CloneURL :: string
  SSHURL :: string

text \<open>
  The three implementations of the interface \<^verbatim>\<open>ForgeClient\<close> that \<^verbatim>\<open>getForgeClient\<close>
  can return. A \<^verbatim>\<open>nil\<close> interface value is \<^const>\<open>None\<close>.
\<close>

datatype ForgeClient = GitHubClient | GitLabClient | GiteaClient

definition getForgeClient :: "string \<Rightarrow> ForgeClient option" where
  "getForgeClient forgeType =
     (if forgeType = ''github'' then Some GitHubClient
      else if forgeType = ''gitlab'' then Some GitLabClient
      else if forgeType = ''gitea'' \<or> forgeType = ''forgejo'' then Some GiteaClient
      else None)"

section \<open>Configuration from the environment (ref.go, main, lines 44-59)\<close>

text \<open>
  The process environment is a finite map from variable names to values; an unset
  variable is \<^const>\<open>None\<close>.
\<close>

type_synonym environ = "string \<rightharpoonup> string"

text \<open>
  Modelled from the spec: the helper \<^verbatim>\<open>getEnv(key, fallback)\<close> is called by \<^verbatim>\<open>main\<close> but
  its body is not part of the source files. It is taken to be the lookup with a fallback
  that its call sites and the specification's section 6 describe: the value of the
  variable when it is set, the fallback when it is not.
\<close>

definition getEnv :: "environ \<Rightarrow> string \<Rightarrow> string \<Rightarrow> string" where
  "getEnv env key fallback = (case env key of Some v \<Rightarrow> v | None \<Rightarrow> fallback)"

definition loadConfig :: "environ \<Rightarrow> Config" where
  "loadConfig env =
     \<lparr> SourceType = getEnv env ''SOURCE_TYPE'' ''github'',
       SourceDomain = getEnv env ''SOURCE_DOMAIN'' ''github.com'',
       SourceUsername = getEnv env ''SOURCE_USERNAME'' '''',
       SourceToken = getEnv env ''SOURCE_TOKEN'' '''',
       TargetType = getEnv env ''TARGET_TYPE'' ''gitea'',
       TargetDomain = getEnv env ''TARGET_DOMAIN'' '''',
       TargetUsername = getEnv env ''TARGET_USERNAME'' '''',
       TargetToken = getEnv env ''TARGET_TOKEN'' '''',
       TargetRepoOwner = getEnv env ''TARGET_REPO_OWNER'' '''',
       MakePrivate = (getEnv env ''MAKE_PRIVATE'' ''true'' = ''true''),
       EnableWiki = (getEnv env ''ENABLE_WIKI'' ''true'' = ''true''),
       EnableMirror = (getEnv env ''ENABLE_MIRROR'' ''false'' = ''true'') \<rparr>"

section \<open>The orchestrator (ref.go, main, lines 61-94)\<close>

text \<open>
  What a run does is recorded as the sequence of its observable events, in the order
  in which \<^verbatim>\<open>main\<close> produces them: the calls of the two interface methods, and the
  lines it prints or logs. The formatted lines are kept structured:
  \<^item> \<open>PrintFound n d\<close> is \<^verbatim>\<open>fmt.Printf("Found %d repositories on %s\n", n, d)\<close>;
  \<^item> \<open>PrintMigrating r\<close> is \<^verbatim>\<open>fmt.Printf("Migrating %s...\n", r)\<close>;
  \<^item> \<open>LogFailed r e\<close> is \<^verbatim>\<open>log.Printf("Failed to migrate %s: %v", r, e)\<close>;
  \<^item> \<open>PrintMigrated r\<close> is the line "Successfully migrated r".
  Every call event carries the client it is made on; the configuration argument is
  always the one configuration of the run.
\<close>

datatype event =
    FetchReposCall ForgeClient
  | MigrateRepoCall ForgeClient Repository
  | PrintFound nat string
  | PrintMigrating string
  | LogFailed string error
  | PrintMigrated string

text \<open>The calls of \<^verbatim>\<open>log.Fatalf\<close> in \<^verbatim>\<open>main\<close>, each of which ends the process.\<close>

datatype fatal =
    InvalidConfiguration error
  | UnsupportedSource string
  | UnsupportedTarget string
  | FailedToFetch string error

datatype exit = Fatal fatal | Returned

record 'w run =
  exit :: exit
  trace :: "event list"
  world :: 'w

text \<open>
  The bodies of the interface methods are not part of the source files (the text of
  \<^verbatim>\<open>GitHubClient.FetchRepos\<close> stops after its first request is sent, and no
  \<^verbatim>\<open>MigrateRepo\<close> is given), so the orchestrator is modelled over arbitrary
  implementations. Both methods talk to remote forges: they take the state \<open>'w\<close> of
  the outside world and return it changed, so that a second call on the same arguments
  may answer differently. \<^verbatim>\<open>validateConfig\<close>, also absent, is a parameter that maps a
  configuration to \<^const>\<open>None\<close> (\<^verbatim>\<open>nil\<close>) or an error.
\<close>

type_synonym 'w fetch_repos =
  "ForgeClient \<Rightarrow> Config \<Rightarrow> 'w \<Rightarrow> (error + Repository list) \<times> 'w"

type_synonym 'w migrate_repo =
  "ForgeClient \<Rightarrow> Config \<Rightarrow> Repository \<Rightarrow> 'w \<Rightarrow> error option \<times> 'w"

text \<open>The loop of lines 87-94.\<close>

fun migrateLoop ::
  "'w migrate_repo \<Rightarrow> ForgeClient \<Rightarrow> Config \<Rightarrow> Repository list \<Rightarrow> 'w \<Rightarrow> event list \<times> 'w"
where
  "migrateLoop MigrateRepo targetClient config [] w = ([], w)"
| "migrateLoop MigrateRepo targetClient config (repo # repos) w =
     (case MigrateRepo targetClient config repo w of
        (Some err, w') \<Rightarrow>
          (case migrateLoop MigrateRepo targetClient config repos w' of
             (t, w'') \<Rightarrow>
               (PrintMigrating (Name repo) # MigrateRepoCall targetClient repo
                  # LogFailed (Name repo) err # t, w''))
      | (None, w') \<Rightarrow>
          (case migrateLoop MigrateRepo targetClient config repos w' of
             (t, w'') \<Rightarrow>
               (PrintMigrating (Name repo) # MigrateRepoCall targetClient repo
                  # PrintMigrated (Name repo) # t, w'')))"

text \<open>\<^verbatim>\<open>main\<close> from the validation of the configuration on (lines 61-94).\<close>

definition runMigration ::
  "(Config \<Rightarrow> error option) \<Rightarrow> 'w fetch_repos \<Rightarrow> 'w migrate_repo \<Rightarrow> Config \<Rightarrow> 'w \<Rightarrow> 'w run"
where
  "runMigration validateConfig FetchRepos MigrateRepo config w =
     (case validateConfig config of
        Some err \<Rightarrow> \<lparr> exit = Fatal (InvalidConfiguration err), trace = [], world = w \<rparr>
      | None \<Rightarrow>
          (case getForgeClient (SourceType config) of
             None \<Rightarrow>
               \<lparr> exit = Fatal (UnsupportedSource (SourceType config)), trace = [], world = w \<rparr>
           | Some sourceClient \<Rightarrow>
               (case getForgeClient (TargetType config) of
                  None \<Rightarrow>
                    \<lparr> exit = Fatal (UnsupportedTarget (TargetType config)), trace = [],
                      world = w \<rparr>
                | Some targetClient \<Rightarrow>
                    (case FetchRepos sourceClient config w of
                       (Inl err, w1) \<Rightarrow>
                         \<lparr> exit = Fatal (FailedToFetch (SourceType config) err),
                           trace = [FetchReposCall sourceClient], world = w1 \<rparr>
                     | (Inr repos, w1) \<Rightarrow>
                         (case migrateLoop MigrateRepo targetClient config repos w1 of
                            (t, w2) \<Rightarrow>
                              \<lparr> exit = Returned,
                                trace = FetchReposCall sourceClient
                                  # PrintFound (length repos) (SourceDomain config) # t,
                                world = w2 \<rparr>)))))"


text \<open>Reading a trace: the repositories \<^verbatim>\<open>MigrateRepo\<close> was called on, and the outcome
  line of every repository.\<close>

fun migrateCalls :: "event list \<Rightarrow> Repository list" where
  "migrateCalls [] = []"
| "migrateCalls (MigrateRepoCall c repo # t) = repo # migrateCalls t"
| "migrateCalls (e # t) = migrateCalls t"

fun outcomes :: "event list \<Rightarrow> (string \<times> error option) list" where
  "outcomes [] = []"
| "outcomes (LogFailed name err # t) = (name, Some err) # outcomes t"
| "outcomes (PrintMigrated name # t) = (name, None) # outcomes t"
| "outcomes (e # t) = outcomes t"



text \<open>
  The lines of a trace are written by the loop itself. To observe the calls, an
  implementation of \<^verbatim>\<open>MigrateRepo\<close> is wrapped so that it keeps a journal in the state of
  the world: each time it is applied it appends the client, the configuration and
  the repository it was applied to, and its answer. It answers as the wrapped
  implementation does; \<^verbatim>\<open>FetchRepos\<close> is lifted to the larger state and leaves the journal
  alone. An entry of the journal is there only if \<^verbatim>\<open>MigrateRepo\<close> was applied.
\<close>

type_synonym call = "ForgeClient \<times> Config \<times> Repository \<times> error option"

definition recording :: "'w migrate_repo \<Rightarrow> (call list \<times> 'w) migrate_repo" where
  "recording MigrateRepo client config repo jw =
     (case MigrateRepo client config repo (snd jw) of
        (res, w') \<Rightarrow> (res, (fst jw @ [(client, config, repo, res)], w')))"

definition passing :: "'w fetch_repos \<Rightarrow> (call list \<times> 'w) fetch_repos" where
  "passing FetchRepos client config jw =
     (case FetchRepos client config (snd jw) of (res, w') \<Rightarrow> (res, (fst jw, w')))"

definition recordedRun ::
  "(Config \<Rightarrow> error option) \<Rightarrow> 'w fetch_repos \<Rightarrow> 'w migrate_repo \<Rightarrow> Config \<Rightarrow> 'w
     \<Rightarrow> (call list \<times> 'w) run"
where
  "recordedRun validateConfig FetchRepos MigrateRepo config w =
     runMigration validateConfig (passing FetchRepos) (recording MigrateRepo) config ([], w)"

definition journal :: "(call list \<times> 'w) run \<Rightarrow> call list" where
  "journal r = fst (world r)"

section \<open>Saving the collected credentials (auth_ref.go)\<close>




















section \<open>Pagination of the repository listing\<close>

text \<open>
  One response of a forge's "list repositories" endpoint: the repositories of the page,
  and whether the response carries the explicit signal that no page follows. A source
  API maps a page number (from 1) to its response, or to the error of the request.
\<close>

record page =
  items :: "Repository list"
  noNextPage :: bool

type_synonym paged_api = "nat \<Rightarrow> error + page"

text \<open>
  Modelled from the spec: the body of \<^verbatim>\<open>GitHubClient.FetchRepos\<close> ends in the source
  files right after its first request is sent, and the other clients have no
  \<^verbatim>\<open>FetchRepos\<close> there at all; what follows the first response is missing. The loop
  below is the one section 4.1 of the specification words: request page after page,
  stop at the first page that has fewer items than the requested page size or that
  carries the explicit signal that no page follows, and fail as a whole when a request
  fails. The loop need not end (an API may serve full pages for ever), hence the option
  type: \<^const>\<open>None\<close> is a call that never returns.
\<close>

partial_function (option) fetchAllPages ::
  "paged_api \<Rightarrow> nat \<Rightarrow> nat \<Rightarrow> Repository list \<Rightarrow> (error + Repository list) option"
where
  "fetchAllPages api pageSize p acc =
     (case api p of
        Inl err \<Rightarrow> Some (Inl err)
      | Inr pg \<Rightarrow>
          if length (items pg) < pageSize \<or> noNextPage pg then Some (Inr (acc @ items pg))
          else fetchAllPages api pageSize (Suc p) (acc @ items pg))"

declare fetchAllPages.simps [code]

text \<open>
  Modelled from the spec: \<^verbatim>\<open>FetchRepos\<close> as section 4.1 describes it, the loop started at
  the first page with nothing collected.
\<close>

definition FetchReposPaged :: "paged_api \<Rightarrow> nat \<Rightarrow> (error + Repository list) option" where
  "FetchReposPaged api pageSize = fetchAllPages api pageSize 1 []"

section \<open>Fake forges for concrete runs\<close>

text \<open>
  Stand-ins for the absent parts, used where a statement is evaluated on a concrete
  run: a validation that accepts every configuration, a source that lists given
  repositories or fails, and three targets. The flaky target counts the requests it has
  received in the state of the world: it answers the first with HTTP 503 and every
  later one with success.
\<close>

definition acceptAll :: "Config \<Rightarrow> error option" where
  "acceptAll config = None"

definition sourceListing :: "Repository list \<Rightarrow> 'w fetch_repos" where
  "sourceListing repos client config w = (Inr repos, w)"


definition targetOk :: "'w migrate_repo" where
  "targetOk client config repo w = (None, w)"


definition targetFlaky :: "nat migrate_repo" where
  "targetFlaky client config repo n =
     (if n = 0 then Some ''503 Service Unavailable'' else None, Suc n)"

definition repoA :: Repository where
  "repoA = \<lparr> Name = ''repoA'', CloneURL = ''https://github.com/alice/repoA.git'',
     SSHURL = ''git@github.com:alice/repoA.git'' \<rparr>"

definition repoB :: Repository where
  "repoB = \<lparr> Name = ''repoB'', CloneURL = ''https://github.com/alice/repoB.git'',
     SSHURL = ''git@github.com:alice/repoB.git'' \<rparr>"

definition repoC :: Repository where
  "repoC = \<lparr> Name = ''repoC'', CloneURL = ''https://github.com/alice/repoC.git'',
     SSHURL = '''' \<rparr>"

definition repoEmpty :: Repository where
  "repoEmpty = \<lparr> Name = '''', CloneURL = '''', SSHURL = '''' \<rparr>"

definition threePages :: paged_api where
  "threePages p =
     (if p = 1 then Inr \<lparr> items = [repoA, repoB], noNextPage = False \<rparr>
      else if p = 2 then Inr \<lparr> items = [repoC, repoA], noNextPage = False \<rparr>
      else if p = 3 then Inr \<lparr> items = [repoB], noNextPage = False \<rparr>
      else Inl ''404 Not Found'')"





section \<open>Properties of the orchestrator\<close>

lemma migrateLoop_calls:
  "migrateLoop MigrateRepo targetClient config repos w = (t, w') \<Longrightarrow> migrateCalls t = repos"
  by (induction repos arbitrary: w t w') (auto split: prod.splits option.splits)

lemma migrateLoop_outcomes:
  "migrateLoop MigrateRepo targetClient config repos w = (t, w') \<Longrightarrow>
   map fst (outcomes t) = map Name repos"
  by (induction repos arbitrary: w t w') (auto split: prod.splits option.splits)

lemma migrateLoop_append:
  "migrateLoop MigrateRepo targetClient config (xs @ ys) w =
     (case migrateLoop MigrateRepo targetClient config xs w of
        (t1, w1) \<Rightarrow>
          (case migrateLoop MigrateRepo targetClient config ys w1 of
             (t2, w2) \<Rightarrow> (t1 @ t2, w2)))"
  by (induction xs arbitrary: w) (auto split: prod.splits option.splits)


text \<open>
  The journal of the wrapped loop: one entry per repository, in order, each with the
  answer that the loop then reports.
\<close>

lemma migrateLoop_recording:
  "migrateLoop (recording MigrateRepo) targetClient config repos (j, w) =
     (case migrateLoop MigrateRepo targetClient config repos w of
        (t, w') \<Rightarrow>
          (t, (j @ map (\<lambda>(repo, out). (targetClient, config, repo, snd out))
                     (zip repos (outcomes t)), w')))"
  by (induction repos arbitrary: j w)
    (auto simp: recording_def split: prod.splits option.splits)

lemma recordedRun_fetched:
  assumes "validateConfig config = None"
    and "getForgeClient (SourceType config) = Some sourceClient"
    and "getForgeClient (TargetType config) = Some targetClient"
    and "FetchRepos sourceClient config w = (Inr repos, w1)"
    and "migrateLoop MigrateRepo targetClient config repos w1 = (t, w2)"
  shows "recordedRun validateConfig FetchRepos MigrateRepo config w =
           \<lparr> exit = Returned,
             trace = FetchReposCall sourceClient
               # PrintFound (length repos) (SourceDomain config) # t,
             world = (map (\<lambda>(repo, out). (targetClient, config, repo, snd out))
                        (zip repos (outcomes t)), w2) \<rparr>"
  using assms
  by (simp add: recordedRun_def runMigration_def passing_def migrateLoop_recording)


lemma journal_fetched:
  assumes "validateConfig config = None"
    and "getForgeClient (SourceType config) = Some sourceClient"
    and "getForgeClient (TargetType config) = Some targetClient"
    and "FetchRepos sourceClient config w = (Inr repos, w1)"
  shows "\<exists>outs. length outs = length repos
      \<and> outcomes (trace (recordedRun validateConfig FetchRepos MigrateRepo config w))
          = zip (map Name repos) outs
      \<and> journal (recordedRun validateConfig FetchRepos MigrateRepo config w)
          = map (\<lambda>(repo, res). (targetClient, config, repo, res)) (zip repos outs)"
proof -
  obtain t w2 where loop: "migrateLoop MigrateRepo targetClient config repos w1 = (t, w2)"
    by (cases "migrateLoop MigrateRepo targetClient config repos w1")
  have names: "map fst (outcomes t) = map Name repos"
    using loop by (rule migrateLoop_outcomes)
  then have len: "length (outcomes t) = length repos"
    by (metis length_map)
  have run: "recordedRun validateConfig FetchRepos MigrateRepo config w =
           \<lparr> exit = Returned,
             trace = FetchReposCall sourceClient
               # PrintFound (length repos) (SourceDomain config) # t,
             world = (map (\<lambda>(repo, out). (targetClient, config, repo, snd out))
                        (zip repos (outcomes t)), w2) \<rparr>"
    using assms loop by (rule recordedRun_fetched)
  have z: "outcomes t = zip (map Name repos) (map snd (outcomes t))"
    using names by (metis zip_map_fst_snd)
  have j: "map (\<lambda>(repo, out). (targetClient, config, repo, snd out)) (zip repos (outcomes t))
      = map (\<lambda>(repo, res). (targetClient, config, repo, res)) (zip repos (map snd (outcomes t)))"
    by (simp add: zip_map2 case_prod_unfold)
  show ?thesis
    apply (rule exI [of _ "map snd (outcomes t)"])
    using len z j by (simp add: run journal_def)
qed

text \<open>The run on the empty environment, a source that lists and a validation that accepts.\<close>

lemma default_run_hyps:
  "acceptAll (loadConfig Map.empty) = None"
  "getForgeClient (SourceType (loadConfig Map.empty)) = Some GitHubClient"
  "getForgeClient (TargetType (loadConfig Map.empty)) = Some GiteaClient"
  "sourceListing repos GitHubClient (loadConfig Map.empty) w = (Inr repos, w)"
  by (simp_all add: acceptAll_def loadConfig_def getEnv_def getForgeClient_def sourceListing_def)



section \<open>Fatal errors before the loop\<close>






text \<open>
  Claim C7. \<^verbatim>\<open>MigrateRepo\<close> is applied to the repositories in the order in which
  \<^verbatim>\<open>FetchRepos\<close> returned them: the journal of the applications lists the fetched
  repositories in their order, each on the target client with the configuration of the
  run; the call lines of the trace are in the same order.
\<close>

theorem migrate_order_is_fetch_order:
  assumes "validateConfig config = None"
    and "getForgeClient (SourceType config) = Some sourceClient"
    and "getForgeClient (TargetType config) = Some targetClient"
    and "FetchRepos sourceClient config w = (Inr repos, w1)"
  shows "map (\<lambda>(client, cfg, repo, res). (client, cfg, repo))
           (journal (recordedRun validateConfig FetchRepos MigrateRepo config w))
         = map (\<lambda>repo. (targetClient, config, repo)) repos
       \<and> migrateCalls (trace (runMigration validateConfig FetchRepos MigrateRepo config w))
         = repos"
proof -
  obtain outs where len: "length outs = length repos"
    and jou: "journal (recordedRun validateConfig FetchRepos MigrateRepo config w)
          = map (\<lambda>(repo, res). (targetClient, config, repo, res)) (zip repos outs)"
    using journal_fetched [where validateConfig = validateConfig and FetchRepos = FetchRepos
      and MigrateRepo = MigrateRepo, OF assms] by blast
  obtain t w2 where loop: "migrateLoop MigrateRepo targetClient config repos w1 = (t, w2)"
    by (cases "migrateLoop MigrateRepo targetClient config repos w1")
  then have "trace (runMigration validateConfig FetchRepos MigrateRepo config w) =
      FetchReposCall sourceClient # PrintFound (length repos) (SourceDomain config) # t"
    using assms by (simp add: runMigration_def)
  then have calls: "migrateCalls
      (trace (runMigration validateConfig FetchRepos MigrateRepo config w)) = repos"
    using migrateLoop_calls [OF loop] by simp
  from len have "length repos = length outs"
    by simp
  then have "map (\<lambda>(client, cfg, repo, res). (client, cfg, repo))
      (map (\<lambda>(repo, res). (targetClient, config, repo, res)) (zip repos outs))
      = map (\<lambda>repo. (targetClient, config, repo)) repos"
    by (induction repos outs rule: list_induct2) simp_all
  then show ?thesis
    using jou calls by simp
qed

theorem migrate_order_is_fetch_order_witness:
  "map (\<lambda>(client, cfg, repo, res). (client, cfg, repo))
     (journal (recordedRun acceptAll (sourceListing [repoB, repoC, repoA]) targetFlaky
        (loadConfig Map.empty) 0))
   = [(GiteaClient, loadConfig Map.empty, repoB), (GiteaClient, loadConfig Map.empty, repoC),
      (GiteaClient, loadConfig Map.empty, repoA)]
   \<and> migrateCalls (trace (runMigration acceptAll (sourceListing [repoB, repoC, repoA]) targetFlaky
     (loadConfig Map.empty) 0)) = [repoB, repoC, repoA]"
proof -
  note th = migrate_order_is_fetch_order
      [where validateConfig = acceptAll and config = "loadConfig Map.empty"
         and sourceClient = GitHubClient and targetClient = GiteaClient
         and FetchRepos = "sourceListing [repoB, repoC, repoA]" and w = "0::nat"
         and ?w1.0 = "0::nat" and MigrateRepo = targetFlaky, OF default_run_hyps]
  show ?thesis
    using th by simp
qed

section \<open>What the loop does not do\<close>

text \<open>
  Claim C4, as the loop has it. The loop calls \<^verbatim>\<open>MigrateRepo\<close> once for a repository and
  takes the answer as final: when the call fails, with whatever error, the failure is
  logged and the loop goes on with the next repository from the state that this one call
  left behind. No second call is made for the repository, so a retry can only happen
  inside \<^verbatim>\<open>MigrateRepo\<close>.
\<close>

theorem failed_migration_not_retried:
  assumes "migrateLoop MigrateRepo targetClient config before w = (t1, w1)"
    and "MigrateRepo targetClient config repo w1 = (Some err, w2)"
    and "migrateLoop MigrateRepo targetClient config after w2 = (t2, w3)"
  shows "migrateLoop MigrateRepo targetClient config (before @ repo # after) w =
           (t1 @ [PrintMigrating (Name repo), MigrateRepoCall targetClient repo,
                  LogFailed (Name repo) err] @ t2, w3)"
  using assms by (simp add: migrateLoop_append)

theorem failed_migration_not_retried_witness:
  "migrateLoop targetFlaky GiteaClient (loadConfig Map.empty) [repoA, repoB] 0 =
     ([PrintMigrating ''repoA'', MigrateRepoCall GiteaClient repoA,
       LogFailed ''repoA'' ''503 Service Unavailable'',
       PrintMigrating ''repoB'', MigrateRepoCall GiteaClient repoB,
       PrintMigrated ''repoB''], 2)"
proof -
  have b: "migrateLoop targetFlaky GiteaClient (loadConfig Map.empty) [] 0 = ([], 0)"
    by simp
  have m: "targetFlaky GiteaClient (loadConfig Map.empty) repoA 0
      = (Some ''503 Service Unavailable'', 1)"
    by (simp add: targetFlaky_def)
  have a: "migrateLoop targetFlaky GiteaClient (loadConfig Map.empty) [repoB] 1 =
      ([PrintMigrating ''repoB'', MigrateRepoCall GiteaClient repoB, PrintMigrated ''repoB''], 2)"
    by (simp add: targetFlaky_def repoB_def)
  have n: "Name repoA = ''repoA''"
    by (simp add: repoA_def)
  show ?thesis
    using failed_migration_not_retried [OF b m a] n by simp
qed

text \<open>
  Claim C4 as stated fails: the target answers the first request with HTTP 503 and
  would answer the next one with success, yet the run records the failure of repoA after
  a single call.
\<close>

theorem transient_failure_is_final_counterexample:
  "outcomes (trace (runMigration acceptAll (sourceListing [repoA]) targetFlaky
      (loadConfig Map.empty) 0)) = [(''repoA'', Some ''503 Service Unavailable'')]
   \<and> migrateCalls (trace (runMigration acceptAll (sourceListing [repoA]) targetFlaky
      (loadConfig Map.empty) 0)) = [repoA]
   \<and> world (runMigration acceptAll (sourceListing [repoA]) targetFlaky
      (loadConfig Map.empty) 0) = 1
   \<and> fst (targetFlaky GiteaClient (loadConfig Map.empty) repoA 1) = None"
  by (simp add: runMigration_def acceptAll_def sourceListing_def targetFlaky_def
      loadConfig_def getEnv_def getForgeClient_def repoA_def)

text \<open>
  Claim C5, as the loop has it. Nothing is checked between \<^verbatim>\<open>FetchRepos\<close> and the
  loop: \<^verbatim>\<open>MigrateRepo\<close> is applied to every repository of the fetched list, whatever its
  fields hold, and so to one with an empty name or an empty clone URL. The journal of
  the applications has an entry for it.
\<close>

theorem every_fetched_repository_is_submitted:
  assumes "validateConfig config = None"
    and "getForgeClient (SourceType config) = Some sourceClient"
    and "getForgeClient (TargetType config) = Some targetClient"
    and "FetchRepos sourceClient config w = (Inr repos, w1)"
    and "repo \<in> set repos"
  shows "\<exists>res. (targetClient, config, repo, res)
           \<in> set (journal (recordedRun validateConfig FetchRepos MigrateRepo config w))"
proof -
  obtain outs where len: "length outs = length repos"
    and jou: "journal (recordedRun validateConfig FetchRepos MigrateRepo config w)
          = map (\<lambda>(repo, res). (targetClient, config, repo, res)) (zip repos outs)"
    using journal_fetched [where validateConfig = validateConfig and FetchRepos = FetchRepos
      and MigrateRepo = MigrateRepo, OF assms(1-4)] by blast
  from \<open>repo \<in> set repos\<close> obtain i where i: "i < length repos" "repos ! i = repo"
    by (auto simp: in_set_conv_nth)
  with len have "(repo, outs ! i) \<in> set (zip repos outs)"
    by (auto simp: set_zip)
  then have "(targetClient, config, repo, outs ! i)
      \<in> set (map (\<lambda>(repo, res). (targetClient, config, repo, res)) (zip repos outs))"
    by force
  then show ?thesis
    using jou by auto
qed

theorem every_fetched_repository_is_submitted_witness:
  "Name repoEmpty = [] \<and> CloneURL repoEmpty = []
   \<and> (\<exists>res. (GiteaClient, loadConfig Map.empty, repoEmpty, res)
        \<in> set (journal (recordedRun acceptAll (sourceListing [repoA, repoEmpty]) targetOk
            (loadConfig Map.empty) ())))"
proof -
  have m: "repoEmpty \<in> set [repoA, repoEmpty]"
    by simp
  note th = every_fetched_repository_is_submitted
    [where validateConfig = acceptAll and config = "loadConfig Map.empty"
       and sourceClient = GitHubClient and targetClient = GiteaClient
       and FetchRepos = "sourceListing [repoA, repoEmpty]" and w = "()"
       and ?w1.0 = "()" and MigrateRepo = targetOk, OF default_run_hyps m]
  show ?thesis
    using th by (simp add: repoEmpty_def)
qed

text \<open>
  Claim C5 as stated fails: \<^verbatim>\<open>MigrateRepo\<close> is applied to a fetched repository with an
  empty name and an empty clone URL.
\<close>

theorem empty_repository_is_submitted_counterexample:
  "Name repoEmpty = [] \<and> CloneURL repoEmpty = []
   \<and> journal (recordedRun acceptAll (sourceListing [repoEmpty]) targetOk
        (loadConfig Map.empty) ()) = [(GiteaClient, loadConfig Map.empty, repoEmpty, None)]
   \<and> trace (runMigration acceptAll (sourceListing [repoEmpty]) targetOk
        (loadConfig Map.empty) ()) =
      [FetchReposCall GitHubClient, PrintFound 1 ''github.com'', PrintMigrating [],
       MigrateRepoCall GiteaClient repoEmpty, PrintMigrated []]"
proof -
  have "SourceDomain (loadConfig Map.empty) = ''github.com''"
    by (simp add: loadConfig_def getEnv_def)
  then show ?thesis
    by (simp add: journal_def recordedRun_def runMigration_def passing_def recording_def
      targetOk_def default_run_hyps repoEmpty_def)
qed

section \<open>Properties of the configuration\<close>

text \<open>
  Claim C8. When one of the variables MAKE_PRIVATE, ENABLE_WIKI and ENABLE_MIRROR is
  set, its field of the configuration is true exactly when the value is the string
  "true"; every other value gives false.
\<close>

theorem flags_true_iff_literal_true:
  "(\<forall>s. env ''MAKE_PRIVATE'' = Some s \<longrightarrow> MakePrivate (loadConfig env) = (s = ''true''))
   \<and> (\<forall>s. env ''ENABLE_WIKI'' = Some s \<longrightarrow> EnableWiki (loadConfig env) = (s = ''true''))
   \<and> (\<forall>s. env ''ENABLE_MIRROR'' = Some s \<longrightarrow> EnableMirror (loadConfig env) = (s = ''true''))"
  by (simp add: loadConfig_def getEnv_def)

theorem flags_true_iff_literal_true_witness:
  "MakePrivate (loadConfig [''MAKE_PRIVATE'' \<mapsto> ''TRUE'', ''ENABLE_WIKI'' \<mapsto> ''1'',
      ''ENABLE_MIRROR'' \<mapsto> ''true'']) = False
   \<and> EnableWiki (loadConfig [''MAKE_PRIVATE'' \<mapsto> ''TRUE'', ''ENABLE_WIKI'' \<mapsto> ''1'',
      ''ENABLE_MIRROR'' \<mapsto> ''true'']) = False
   \<and> EnableMirror (loadConfig [''MAKE_PRIVATE'' \<mapsto> ''TRUE'', ''ENABLE_WIKI'' \<mapsto> ''1'',
      ''ENABLE_MIRROR'' \<mapsto> ''true'']) = True"
  using flags_true_iff_literal_true
    [of "[''MAKE_PRIVATE'' \<mapsto> ''TRUE'', ''ENABLE_WIKI'' \<mapsto> ''1'', ''ENABLE_MIRROR'' \<mapsto> ''true'']"]
  by simp



section \<open>The round trip of the saved credentials\<close>





















section \<open>Properties of the pagination\<close>

lemma fetchAllPages_pages:
  assumes "pages \<noteq> []"
    and "\<forall>i < length pages. api (p + i) = Inr (pages ! i)"
    and "\<forall>i. Suc i < length pages \<longrightarrow>
           length (items (pages ! i)) = pageSize \<and> \<not> noNextPage (pages ! i)"
    and "length (items (last pages)) < pageSize \<or> noNextPage (last pages)"
  shows "fetchAllPages api pageSize p acc = Some (Inr (acc @ concat (map items pages)))"
  using assms
proof (induction pages arbitrary: p acc)
  case Nil
  then show ?case by simp
next
  case (Cons pg rest)
  from Cons.prems(2) have here: "api p = Inr pg"
    by force
  show ?case
  proof (cases "rest = []")
    case True
    with Cons.prems(4) have "length (items pg) < pageSize \<or> noNextPage pg"
      by simp
    with here True show ?thesis
      by (subst fetchAllPages.simps) auto
  next
    case False
    from Cons.prems(3) False have full: "length (items pg) = pageSize \<and> \<not> noNextPage pg"
      by (cases rest) force+
    have later: "\<forall>i < length rest. api (Suc p + i) = Inr (rest ! i)"
    proof (intro allI impI)
      fix i assume "i < length rest"
      then have "api (p + Suc i) = Inr ((pg # rest) ! Suc i)"
        using Cons.prems(2) by (metis Suc_less_eq length_Cons)
      then show "api (Suc p + i) = Inr (rest ! i)"
        by simp
    qed
    have fulls: "\<forall>i. Suc i < length rest \<longrightarrow>
        length (items (rest ! i)) = pageSize \<and> \<not> noNextPage (rest ! i)"
    proof (intro allI impI)
      fix i assume "Suc i < length rest"
      then have "Suc (Suc i) < length (pg # rest)"
        by simp
      with Cons.prems(3) have "length (items ((pg # rest) ! Suc i)) = pageSize
          \<and> \<not> noNextPage ((pg # rest) ! Suc i)"
        by blast
      then show "length (items (rest ! i)) = pageSize \<and> \<not> noNextPage (rest ! i)"
        by simp
    qed
    from Cons.prems(4) False
    have final: "length (items (last rest)) < pageSize \<or> noNextPage (last rest)"
      by simp
    have "fetchAllPages api pageSize (Suc p) (acc @ items pg)
        = Some (Inr ((acc @ items pg) @ concat (map items rest)))"
      using False later fulls final by (rule Cons.IH)
    with here full show ?thesis
      by (subst fetchAllPages.simps) simp
  qed
qed

text \<open>
  Claim C2. A source serves its listing as the pages \<open>pages\<close>, numbered from 1, every
  page but the last full and without the signal, the last one short or carrying the
  signal. Then the paginating fetch returns, and what it returns is all the pages, one
  after the other; for three pages that is the union of the three.
\<close>

theorem pagination_exhausted:
  assumes "pages \<noteq> []"
    and "\<forall>i < length pages. api (Suc i) = Inr (pages ! i)"
    and "\<forall>i. Suc i < length pages \<longrightarrow>
           length (items (pages ! i)) = pageSize \<and> \<not> noNextPage (pages ! i)"
    and "length (items (last pages)) < pageSize \<or> noNextPage (last pages)"
  shows "FetchReposPaged api pageSize = Some (Inr (concat (map items pages)))"
proof -
  from assms(2) have "\<forall>i < length pages. api (1 + i) = Inr (pages ! i)"
    by simp
  with assms(1) have "fetchAllPages api pageSize 1 []
      = Some (Inr ([] @ concat (map items pages)))"
    using assms(3,4) by (rule fetchAllPages_pages)
  then show ?thesis
    by (simp add: FetchReposPaged_def)
qed

theorem pagination_exhausted_witness:
  "FetchReposPaged threePages 2 = Some (Inr [repoA, repoB, repoC, repoA, repoB])"
proof -
  let ?pages = "[\<lparr> items = [repoA, repoB], noNextPage = False \<rparr>,
                 \<lparr> items = [repoC, repoA], noNextPage = False \<rparr>,
                 \<lparr> items = [repoB], noNextPage = False \<rparr>]"
  have a: "?pages \<noteq> []"
    by simp
  have b: "\<forall>i < length ?pages. threePages (Suc i) = Inr (?pages ! i)"
    by (simp add: threePages_def All_less_Suc numeral_3_eq_3)
  have c: "\<forall>i. Suc i < length ?pages \<longrightarrow>
      length (items (?pages ! i)) = 2 \<and> \<not> noNextPage (?pages ! i)"
    by (simp add: less_Suc_eq numeral_3_eq_3 nth_Cons')
  have d: "length (items (last ?pages)) < 2 \<or> noNextPage (last ?pages)"
    by simp
  show ?thesis
    using pagination_exhausted [OF a b c d] by simp
qed

end
